theory Spec2Isabelle
  imports Main
begin

section \<open>Data model\<close>

text \<open>
  The account client of \<^verbatim>\<open>starknet/net/account/account_client.py\<close> and the base client of
  \<^verbatim>\<open>starknet/net/client.py\<close>. Python integers are \<open>int\<close>, lists are lists, dictionaries
  with string keys are maps from \<open>string\<close>.

  A transaction object as \<open>AccountClient.add_transaction\<close> reads it: its \<open>tx_type\<close> and the
  four fields of an \<open>InvokeFunction\<close>. The method forwards an object of type \<open>DEPLOY\<close>
  without reading any other field of it.
\<close>

datatype TransactionType = DEPLOY | INVOKE_FUNCTION

record Transaction =
  tx_type :: TransactionType
  contract_address :: int
  entry_point_selector :: int
  calldata :: "int list"
  signature :: "int list"

text \<open>\<^verbatim>\<open>CastableToHash\<close> is an integer or a string; a JSON object maps keys to values.\<close>

datatype CastableToHash = HashInt int | HashStr string

datatype json = JNull | JBool bool | JInt int | JStr string

type_synonym JsonObject = "string \<Rightarrow> json option"

text \<open>
  Modelled from the spec: the enumeration \<open>TxStatus\<close> of \<^verbatim>\<open>starknet/constants.py\<close> is not
  among the sources. The spec names five statuses "plus an unknown catch-all"; \<open>OTHER\<close>
  stands for any further member of the enumeration, under its name.
\<close>

datatype TxStatus =
  NOT_RECEIVED | RECEIVED | PENDING | ACCEPTED_ONCHAIN | REJECTED | OTHER string

text \<open>
  Every \<^verbatim>\<open>raise\<close> of the two files, the errors of the Python operations they use
  (subscripting a dictionary or a list), and \<open>Raised\<close> for an exception that an external
  collaborator raises.
\<close>

datatype error =
    ValueError string
  | TypeError string
  | KeyError json
  | IndexError
  | TransactionRejected "CastableToHash option"
  | TransactionNotReceived "CastableToHash option"
  | UnknownStatus TxStatus
  | Raised string

text \<open>
  The external collaborators, taken as parameters: the hash primitive, the key derivation,
  the signer, the selector derivation and the field check of the \<open>InvokeFunction\<close>
  constructor, all of the \<^verbatim>\<open>starkware\<close> library, Python's \<^verbatim>\<open>int(v, 16)\<close>, the feeder
  gateway (read endpoint) and the gateway (submission endpoint). Each of them returns a
  value or raises, except the selector derivation, which the code applies to two fixed
  names only. \<open>InvokeFunction_validate\<close> is \<open>None\<close> when the fields pass the check of the
  constructor, and the exception it raises otherwise.
  The feeder gateway's answer to \<^verbatim>\<open>get_transaction\<close> may differ from poll to poll: it is
  given the number of the poll, counted from 0. \<open>TxStatus_other_members\<close> lists the names
  of the members of \<open>TxStatus\<close> beyond the five that the spec names.
\<close>

record environment =
  compute_hash_on_elements :: "int list \<Rightarrow> error + int"
  private_to_stark_key :: "int \<Rightarrow> error + int"
  sign :: "int \<Rightarrow> int \<Rightarrow> error + (int \<times> int)"
  get_selector_from_name :: "string \<Rightarrow> int"
  InvokeFunction_validate :: "int \<Rightarrow> int \<Rightarrow> int list \<Rightarrow> int list \<Rightarrow> error option"
  int_base16 :: "string \<Rightarrow> error + int"
  feeder_call_contract ::
    "Transaction \<Rightarrow> CastableToHash option \<Rightarrow> int option \<Rightarrow> error + (string \<Rightarrow> string list option)"
  feeder_get_transaction :: "CastableToHash option \<Rightarrow> int option \<Rightarrow> nat \<Rightarrow> error + JsonObject"
  gateway_add_transaction :: "Transaction \<Rightarrow> string option \<Rightarrow> error + (string \<Rightarrow> int option)"
  TxStatus_other_members :: "string list"

text \<open>
  What a run does to the outside, in order: the calls to the two gateways, the call of the
  signer, and the suspension between two polls.
\<close>

datatype event =
    FeederCallContract Transaction "CastableToHash option" "int option"
  | FeederGetTransaction "CastableToHash option" "int option"
  | GatewayAddTransaction Transaction "string option"
  | SignMessage int int
  | Sleep int

fun is_network_call :: "event \<Rightarrow> bool" where
  "is_network_call (FeederCallContract _ _ _) = True"
| "is_network_call (FeederGetTransaction _ _) = True"
| "is_network_call (GatewayAddTransaction _ _) = True"
| "is_network_call (SignMessage _ _) = False"
| "is_network_call (Sleep _) = False"

text \<open>
  The constructor call \<^verbatim>\<open>InvokeFunction(contract_address=..., ...)\<close>: the library checks
  the fields (the address and the field elements must be in range) and raises when one
  fails, so the call yields an object or an error.
\<close>

definition InvokeFunction ::
  "environment \<Rightarrow> int \<Rightarrow> int \<Rightarrow> int list \<Rightarrow> int list \<Rightarrow> error + Transaction" where
  "InvokeFunction env addr selector cd sg =
     (case InvokeFunction_validate env addr selector cd sg of
        Some e \<Rightarrow> Inl e
      | None \<Rightarrow>
          Inr \<lparr>tx_type = INVOKE_FUNCTION, contract_address = addr,
               entry_point_selector = selector, calldata = cd, signature = sg\<rparr>)"

section \<open>Key pair and message hash\<close>

record KeyPair =
  private_key :: int
  public_key :: int

text \<open>
  \<open>KeyPair.from_private_key\<close> and \<open>hash_message\<close> in an environment. The list that
  \<open>hash_message\<close> passes to the outer call is built first, so the inner call comes first
  and its exception ends the function.
\<close>

definition from_private_key :: "environment \<Rightarrow> int \<Rightarrow> error + KeyPair" where
  "from_private_key env key =
     (case private_to_stark_key env key of
        Inl e \<Rightarrow> Inl e
      | Inr pk \<Rightarrow> Inr \<lparr>private_key = key, public_key = pk\<rparr>)"

definition hash_message ::
  "environment \<Rightarrow> int \<Rightarrow> int \<Rightarrow> int \<Rightarrow> int list \<Rightarrow> int \<Rightarrow> error + int" where
  "hash_message env account to selector cd nonce =
     (case compute_hash_on_elements env cd of
        Inl e \<Rightarrow> Inl e
      | Inr d \<Rightarrow> compute_hash_on_elements env [account, to, selector, d, nonce])"

text \<open>
  The same two functions with the state that a library primitive may read and change made
  explicit: a call of the primitive takes the state \<open>w\<close> hidden from the caller (a global,
  a cache, a random generator) and returns its result with the state it leaves. The
  functions themselves hold no state: they pass on what the primitive leaves.
\<close>

definition from_private_key_call ::
  "(int \<Rightarrow> 'w \<Rightarrow> (error + int) \<times> 'w) \<Rightarrow> int \<Rightarrow> 'w \<Rightarrow> (error + KeyPair) \<times> 'w" where
  "from_private_key_call key_call key w =
     (case key_call key w of
        (Inl e, w1) \<Rightarrow> (Inl e, w1)
      | (Inr pk, w1) \<Rightarrow> (Inr \<lparr>private_key = key, public_key = pk\<rparr>, w1))"

definition hash_message_call ::
  "(int list \<Rightarrow> 'w \<Rightarrow> (error + int) \<times> 'w) \<Rightarrow> int \<Rightarrow> int \<Rightarrow> int \<Rightarrow> int list \<Rightarrow> int \<Rightarrow> 'w \<Rightarrow>
     (error + int) \<times> 'w" where
  "hash_message_call hash_call account to selector cd nonce w =
     (case hash_call cd w of
        (Inl e, w1) \<Rightarrow> (Inl e, w1)
      | (Inr d, w1) \<Rightarrow> hash_call [account, to, selector, d, nonce] w1)"

section \<open>The base client\<close>

text \<open>Python's \<^verbatim>\<open>d[k]\<close> on a dictionary: a missing key raises \<^verbatim>\<open>KeyError\<close>.\<close>

definition getitem :: "(string \<Rightarrow> 'v option) \<Rightarrow> string \<Rightarrow> error + 'v" where
  "getitem d k = (case d k of None \<Rightarrow> Inl (KeyError (JStr k)) | Some v \<Rightarrow> Inr v)"

text \<open>
  The comprehension \<^verbatim>\<open>[int(v, 16) for v in response["result"]]\<close>: the elements are
  converted from left to right and the first failure ends it.
\<close>

fun int16_all :: "(string \<Rightarrow> error + int) \<Rightarrow> string list \<Rightarrow> error + int list" where
  "int16_all conv [] = Inr []"
| "int16_all conv (v # vs) =
     (case conv v of
        Inl e \<Rightarrow> Inl e
      | Inr n \<Rightarrow> (case int16_all conv vs of Inl e \<Rightarrow> Inl e | Inr ns \<Rightarrow> Inr (n # ns)))"

text \<open>Each method returns its result, or the error it raises, and the events it caused.\<close>

definition Client_call_contract ::
  "environment \<Rightarrow> Transaction \<Rightarrow> CastableToHash option \<Rightarrow> int option \<Rightarrow>
     (error + int list) \<times> event list" where
  "Client_call_contract env invoke_tx block_hash block_number =
     ((case feeder_call_contract env invoke_tx block_hash block_number of
         Inl e \<Rightarrow> Inl e
       | Inr response \<Rightarrow>
           (case getitem response ''result'' of
              Inl e \<Rightarrow> Inl e
            | Inr vs \<Rightarrow> int16_all (int_base16 env) vs)),
      [FeederCallContract invoke_tx block_hash block_number])"

definition Client_add_transaction ::
  "environment \<Rightarrow> Transaction \<Rightarrow> string option \<Rightarrow>
     (error + (string \<Rightarrow> int option)) \<times> event list" where
  "Client_add_transaction env tx token =
     (gateway_add_transaction env tx token, [GatewayAddTransaction tx token])"

text \<open>
  \<^verbatim>\<open>TxStatus[name]\<close>: the member of that name; a value that names no member raises
  \<^verbatim>\<open>KeyError\<close>.
\<close>

definition TxStatus_getitem :: "environment \<Rightarrow> json \<Rightarrow> error + TxStatus" where
  "TxStatus_getitem env v =
     (case v of
        JStr name \<Rightarrow>
          (if name = ''NOT_RECEIVED'' then Inr NOT_RECEIVED
           else if name = ''RECEIVED'' then Inr RECEIVED
           else if name = ''PENDING'' then Inr PENDING
           else if name = ''ACCEPTED_ONCHAIN'' then Inr ACCEPTED_ONCHAIN
           else if name = ''REJECTED'' then Inr REJECTED
           else if name \<in> set (TxStatus_other_members env) then Inr (OTHER name)
           else Inl (KeyError v))
      | _ \<Rightarrow> Inl (KeyError v))"

text \<open>
  \<open>Client.get_transaction\<close> hands its arguments to the feeder gateway; \<open>i\<close> is the number
  of the poll that asks.
\<close>

definition Client_get_transaction ::
  "environment \<Rightarrow> CastableToHash option \<Rightarrow> int option \<Rightarrow> nat \<Rightarrow> error + JsonObject" where
  "Client_get_transaction env tx_hash tx_id i = feeder_get_transaction env tx_hash tx_id i"

text \<open>
  One pass through the body of the \<^verbatim>\<open>while True\<close> loop of \<open>wait_for_tx\<close>, at poll
  number \<open>i\<close>: it returns, raises, or falls through to the sleep. The call
  \<^verbatim>\<open>self.get_transaction(tx_hash=tx_hash)\<close> leaves \<open>tx_id\<close> at its default \<open>None\<close>.
\<close>

datatype outcome = Return "json \<times> TxStatus" | Raise error | Continue

definition wait_for_tx_iteration ::
  "environment \<Rightarrow> CastableToHash option \<Rightarrow> bool \<Rightarrow> bool \<Rightarrow> nat \<Rightarrow> outcome" where
  "wait_for_tx_iteration env tx_hash wait_for_accept first_run i =
     (case Client_get_transaction env tx_hash None i of
        Inl e \<Rightarrow> Raise e
      | Inr result \<Rightarrow>
          (case getitem result ''status'' of
             Inl e \<Rightarrow> Raise e
           | Inr name \<Rightarrow>
               (case TxStatus_getitem env name of
                  Inl e \<Rightarrow> Raise e
                | Inr status \<Rightarrow>
                    if status = ACCEPTED_ONCHAIN then
                      (case getitem result ''block_number'' of
                         Inl e \<Rightarrow> Raise e
                       | Inr bn \<Rightarrow> Return (bn, status))
                    else if status = PENDING then
                      (if \<not> wait_for_accept \<and> ''block_number'' \<in> dom result then
                         (case getitem result ''block_number'' of
                            Inl e \<Rightarrow> Raise e
                          | Inr bn \<Rightarrow> Return (bn, status))
                       else Continue)
                    else if status = REJECTED then Raise (TransactionRejected tx_hash)
                    else if status = NOT_RECEIVED then
                      (if \<not> first_run then Raise (TransactionNotReceived tx_hash)
                       else Continue)
                    else if status \<noteq> RECEIVED then Raise (UnknownStatus status)
                    else Continue)))"

text \<open>
  The loop. It may poll forever (a transaction that stays \<^verbatim>\<open>RECEIVED\<close>), so its result
  is an option: \<open>None\<close> when it never ends. \<open>first_run\<close> is the variable of the source,
  \<open>i\<close> counts the polls, \<open>tr\<close> holds the events so far: every pass adds its call of the
  feeder gateway, and a pass that falls through adds the sleep.
\<close>

partial_function (option) wait_for_tx_loop ::
  "environment \<Rightarrow> CastableToHash option \<Rightarrow> bool \<Rightarrow> int \<Rightarrow> bool \<Rightarrow> nat \<Rightarrow> event list \<Rightarrow>
     ((error + json \<times> TxStatus) \<times> event list) option" where
  "wait_for_tx_loop env tx_hash wait_for_accept check_interval first_run i tr =
     (case wait_for_tx_iteration env tx_hash wait_for_accept first_run i of
        Return v \<Rightarrow> Some (Inr v, tr @ [FeederGetTransaction tx_hash None])
      | Raise e \<Rightarrow> Some (Inl e, tr @ [FeederGetTransaction tx_hash None])
      | Continue \<Rightarrow>
          wait_for_tx_loop env tx_hash wait_for_accept check_interval False (Suc i)
            (tr @ [FeederGetTransaction tx_hash None, Sleep check_interval]))"

declare wait_for_tx_loop.simps [code]

definition wait_for_tx ::
  "environment \<Rightarrow> CastableToHash option \<Rightarrow> bool \<Rightarrow> int \<Rightarrow>
     ((error + json \<times> TxStatus) \<times> event list) option" where
  "wait_for_tx env tx_hash wait_for_accept check_interval =
     (if check_interval \<le> 0 then
        Some (Inl (ValueError ''check_interval has to bigger than 0.''), [])
      else wait_for_tx_loop env tx_hash wait_for_accept check_interval True 0 [])"

section \<open>The account client\<close>

record AccountClient =
  address :: int
  key_pair :: KeyPair

definition AccountClient_private_key :: "AccountClient \<Rightarrow> int" where
  "AccountClient_private_key self = private_key (key_pair self)"

definition AccountClient_add_transaction ::
  "environment \<Rightarrow> AccountClient \<Rightarrow> Transaction \<Rightarrow> string option \<Rightarrow>
     (error + (string \<Rightarrow> int option)) \<times> event list" where
  "AccountClient_add_transaction env self tx token =
     (if tx_type tx = DEPLOY then Client_add_transaction env tx token
      else if signature tx \<noteq> [] then
        (Inl (TypeError ''Adding signatures to a signer tx currently isn't supported''), [])
      else
        (case InvokeFunction env (address self) (get_selector_from_name env ''get_nonce'') [] [] of
           Inl e \<Rightarrow> (Inl e, [])
         | Inr nonce_tx \<Rightarrow>
             (case Client_call_contract env nonce_tx None None of
                (Inl e, tr1) \<Rightarrow> (Inl e, tr1)
              | (Inr result, tr1) \<Rightarrow>
                  (case result of
                     [] \<Rightarrow> (Inl IndexError, tr1)
                   | nonce # _ \<Rightarrow>
                       (case hash_message env (address self) (contract_address tx)
                               (entry_point_selector tx) (calldata tx) nonce of
                          Inl e \<Rightarrow> (Inl e, tr1)
                        | Inr msg_hash \<Rightarrow>
                            (let tr2 = tr1 @ [SignMessage msg_hash (AccountClient_private_key self)]
                             in case sign env msg_hash (AccountClient_private_key self) of
                                  Inl e \<Rightarrow> (Inl e, tr2)
                                | Inr (r, s) \<Rightarrow>
                                    (case InvokeFunction env (address self)
                                            (get_selector_from_name env ''execute'')
                                            ([contract_address tx, entry_point_selector tx,
                                              int (length (calldata tx))]
                                               @ calldata tx @ [nonce])
                                            [r, s] of
                                       Inl e \<Rightarrow> (Inl e, tr2)
                                     | Inr execute_tx \<Rightarrow>
                                         (case Client_add_transaction env execute_tx None of
                                            (res, tr3) \<Rightarrow> (res, tr2 @ tr3)))))))))"

section \<open>Observing a run\<close>

text \<open>
  The read-only call that fetches the nonce, as \<open>AccountClient.add_transaction\<close> builds it.
\<close>

definition get_nonce_call :: "environment \<Rightarrow> AccountClient \<Rightarrow> error + Transaction" where
  "get_nonce_call env self =
     InvokeFunction env (address self) (get_selector_from_name env ''get_nonce'') [] []"

text \<open>
  The status that poll \<open>i\<close> observes, when the feeder gateway answers with a dictionary
  whose \<^verbatim>\<open>status\<close> names a member of \<open>TxStatus\<close>.
\<close>

definition polled_status :: "environment \<Rightarrow> CastableToHash option \<Rightarrow> nat \<Rightarrow> TxStatus option" where
  "polled_status env tx_hash i =
     (case Client_get_transaction env tx_hash None i of
        Inl e \<Rightarrow> None
      | Inr result \<Rightarrow>
          (case getitem result ''status'' of
             Inl e \<Rightarrow> None
           | Inr name \<Rightarrow>
               (case TxStatus_getitem env name of Inl e \<Rightarrow> None | Inr status \<Rightarrow> Some status)))"

text \<open>The events of \<open>n\<close> passes that all fell through to the sleep.\<close>

primrec polls_before :: "CastableToHash option \<Rightarrow> int \<Rightarrow> nat \<Rightarrow> event list" where
  "polls_before tx_hash check_interval 0 = []"
| "polls_before tx_hash check_interval (Suc n) =
     polls_before tx_hash check_interval n @
       [FeederGetTransaction tx_hash None, Sleep check_interval]"

section \<open>Example inputs\<close>

text \<open>
  A feeder gateway that answers the polls from a script and the nonce call with
  \<^verbatim>\<open>["0x7"]\<close>, a signer that signs with every key from 0 on and raises on a negative
  key, a constructor that accepts an address from 0 below \<open>2 ^ 251\<close> and field elements
  from 0 below the field prime, and an account at address 100.
\<close>

definition FIELD_PRIME :: int where
  "FIELD_PRIME = 2 ^ 251 + 17 * 2 ^ 192 + 1"

definition is_felt :: "int \<Rightarrow> bool" where
  "is_felt x \<longleftrightarrow> 0 \<le> x \<and> x < FIELD_PRIME"

definition tx_response :: "string \<Rightarrow> int option \<Rightarrow> JsonObject" where
  "tx_response name bn =
     (case bn of
        None \<Rightarrow> [''status'' \<mapsto> JStr name]
      | Some b \<Rightarrow> [''status'' \<mapsto> JStr name, ''block_number'' \<mapsto> JInt b])"

definition scripted_environment :: "JsonObject list \<Rightarrow> environment" where
  "scripted_environment script =
     \<lparr>compute_hash_on_elements = (\<lambda>xs. Inr (sum_list xs)),
      private_to_stark_key = (\<lambda>k. Inr (2 * k)),
      sign = (\<lambda>h k. if k < 0 then Inl (Raised ''invalid private key'') else Inr (h + k, h * k)),
      get_selector_from_name = (\<lambda>name. int (length name)),
      InvokeFunction_validate =
        (\<lambda>addr selector cd sg.
           if \<not> (0 \<le> addr \<and> addr < 2 ^ 251) then Some (Raised ''contract address out of range'')
           else if is_felt selector \<and> list_all is_felt cd \<and> list_all is_felt sg then None
           else Some (Raised ''field element out of range'')),
      int_base16 = (\<lambda>v. if v = ''0x7'' then Inr 7 else Inl (ValueError v)),
      feeder_call_contract = (\<lambda>invoke_tx block_hash block_number. Inr [''result'' \<mapsto> [''0x7'']]),
      feeder_get_transaction =
        (\<lambda>tx_hash tx_id i. if i < length script then Inr (script ! i)
                            else Inl (Raised ''no further response'')),
      gateway_add_transaction = (\<lambda>tx token. Inr [''code'' \<mapsto> 0, ''transaction_hash'' \<mapsto> 1]),
      TxStatus_other_members = []\<rparr>"

definition example_client :: "int \<Rightarrow> AccountClient" where
  "example_client key = \<lparr>address = 100, key_pair = \<lparr>private_key = key, public_key = 2 * key\<rparr>\<rparr>"

definition example_invoke :: "int list \<Rightarrow> Transaction" where
  "example_invoke sg =
     \<lparr>tx_type = INVOKE_FUNCTION, contract_address = 200, entry_point_selector = 300,
      calldata = [1, 2, 3], signature = sg\<rparr>"

definition example_deploy :: "int list \<Rightarrow> Transaction" where
  "example_deploy sg =
     \<lparr>tx_type = DEPLOY, contract_address = 0, entry_point_selector = 0,
      calldata = [11], signature = sg\<rparr>"

definition not_received_twice :: environment where
  "not_received_twice =
     scripted_environment [tx_response ''NOT_RECEIVED'' None, tx_response ''NOT_RECEIVED'' None]"

definition not_received_after_received :: environment where
  "not_received_after_received =
     scripted_environment
       [tx_response ''NOT_RECEIVED'' None, tx_response ''RECEIVED'' None,
        tx_response ''NOT_RECEIVED'' None]"

definition pending_with_block :: environment where
  "pending_with_block =
     scripted_environment
       [tx_response ''NOT_RECEIVED'' None, tx_response ''RECEIVED'' None,
        tx_response ''PENDING'' (Some 42), tx_response ''ACCEPTED_ONCHAIN'' (Some 42)]"





definition counting_hash_call :: "int list \<Rightarrow> nat \<Rightarrow> (error + int) \<times> nat" where
  "counting_hash_call xs w = (Inr (sum_list xs + int w), Suc w)"

section \<open>Unfolding the definitions\<close>

lemmas example_defs =
  scripted_environment_def example_client_def example_invoke_def example_deploy_def
  tx_response_def InvokeFunction_def get_nonce_call_def AccountClient_private_key_def
  Client_call_contract_def getitem_def hash_message_def is_felt_def FIELD_PRIME_def

lemmas poll_defs =
  polled_status_def wait_for_tx_iteration_def Client_get_transaction_def TxStatus_getitem_def

section \<open>The message hash and the key pair\<close>

text \<open>
  C3. The message hash is the hash primitive applied to the five elements account, to,
  selector, digest, nonce, in this order, where the digest is the hash primitive applied
  to the calldata alone: the outer sequence has five elements whatever the length of the
  calldata. When the primitive raises on the calldata, that exception is the outcome.
\<close>

theorem hash_message_two_level:
  "hash_message env account to selector cd nonce =
     (case compute_hash_on_elements env cd of
        Inl e \<Rightarrow> Inl e
      | Inr d \<Rightarrow> compute_hash_on_elements env [account, to, selector, d, nonce])
   \<and> length [account, to, selector, d, nonce] = 5"
  by (simp add: hash_message_def)

text \<open>
  In an environment the primitives are functions: \<open>hash_message\<close> and
  \<open>from_private_key\<close> there are the two functions with explicit state, run with a
  primitive that ignores the state.
\<close>

lemma hash_message_call_in_environment:
  "hash_message env account to selector cd nonce =
     fst (hash_message_call (\<lambda>xs w. (compute_hash_on_elements env xs, w))
            account to selector cd nonce ())"
  by (simp add: hash_message_def hash_message_call_def split: sum.splits)

lemma from_private_key_call_in_environment:
  "from_private_key env key =
     fst (from_private_key_call (\<lambda>k w. (private_to_stark_key env k, w)) key ())"
  by (simp add: from_private_key_def from_private_key_call_def split: sum.splits)

text \<open>
  The state is not a fiction of the model: over a hash primitive that reads and counts,
  the same arguments give two different hashes in two states.
\<close>

lemma hash_message_call_counting:
  "fst (hash_message_call counting_hash_call 100 200 300 [1, 2, 3] 7 0) = Inr 614
   \<and> fst (hash_message_call counting_hash_call 100 200 300 [1, 2, 3] 7 1) = Inr 616"
  by (simp add: hash_message_call_def counting_hash_call_def)



section \<open>Submitting through the account\<close>

lemma call_contract_events:
  "snd (Client_call_contract env invoke_tx block_hash block_number) =
     [FeederCallContract invoke_tx block_hash block_number]"
  by (simp add: Client_call_contract_def)

lemma InvokeFunction_fields:
  "InvokeFunction env addr selector cd sg = Inr t \<Longrightarrow>
   t = \<lparr>tx_type = INVOKE_FUNCTION, contract_address = addr, entry_point_selector = selector,
        calldata = cd, signature = sg\<rparr>"
  by (auto simp: InvokeFunction_def split: option.splits)

text \<open>
  An account whose address the constructor refuses: the submission of an invoke raises
  before anything is called.
\<close>

lemma add_transaction_refused_address:
  assumes "tx_type tx \<noteq> DEPLOY" and "signature tx = []"
    and "get_nonce_call env self = Inl e"
  shows "AccountClient_add_transaction env self tx token = (Inl e, [])"
  using assms by (simp add: AccountClient_add_transaction_def get_nonce_call_def)

text \<open>
  The run of an unsigned invoke up to the nonce: the call for the nonce is built, the
  feeder gateway answers it with a list that starts with \<open>nonce\<close>.
\<close>

lemma add_transaction_fetched:
  assumes "tx_type tx \<noteq> DEPLOY" and "signature tx = []"
    and "get_nonce_call env self = Inr nonce_tx"
    and "fst (Client_call_contract env nonce_tx None None) = Inr (nonce # rest)"
  shows "AccountClient_add_transaction env self tx token =
     (case hash_message env (address self) (contract_address tx) (entry_point_selector tx)
             (calldata tx) nonce of
        Inl e \<Rightarrow> (Inl e, [FeederCallContract nonce_tx None None])
      | Inr h \<Rightarrow>
          (case sign env h (AccountClient_private_key self) of
             Inl e \<Rightarrow>
               (Inl e,
                [FeederCallContract nonce_tx None None,
                 SignMessage h (AccountClient_private_key self)])
           | Inr (r, s) \<Rightarrow>
               (case InvokeFunction env (address self)
                       (get_selector_from_name env ''execute'')
                       ([contract_address tx, entry_point_selector tx,
                         int (length (calldata tx))] @ calldata tx @ [nonce])
                       [r, s] of
                  Inl e \<Rightarrow>
                    (Inl e,
                     [FeederCallContract nonce_tx None None,
                      SignMessage h (AccountClient_private_key self)])
                | Inr execute_tx \<Rightarrow>
                    (gateway_add_transaction env execute_tx None,
                     [FeederCallContract nonce_tx None None,
                      SignMessage h (AccountClient_private_key self),
                      GatewayAddTransaction execute_tx None]))))"
proof -
  have "Client_call_contract env nonce_tx None None =
        (Inr (nonce # rest), [FeederCallContract nonce_tx None None])"
    using assms(4) call_contract_events [of env nonce_tx None None]
    by (simp add: prod_eq_iff)
  then show ?thesis
    using assms(1,2,3)
    by (simp add: AccountClient_add_transaction_def Client_add_transaction_def
        get_nonce_call_def Let_def split: sum.splits prod.splits)
qed

text \<open>
  C1. A regular invoke (not of deploy type, with an empty signature) for contract
  \<open>contract_address tx\<close>, selector \<open>entry_point_selector tx\<close> and calldata \<open>calldata tx\<close>,
  whose nonce call answers a list that starts with \<open>n\<close>, whose message hash is \<open>h\<close> and
  is signed with \<open>(r, s)\<close>, and whose values the \<open>InvokeFunction\<close> constructor accepts,
  ends in exactly one submission to the gateway. The submitted transaction is addressed to
  the account itself, its selector is the one derived from the name "execute", its
  calldata is the target contract, the target selector, the length of the calldata, the
  calldata and the nonce, and its signature is \<open>[r, s]\<close>. The result is the gateway's
  answer.
\<close>

theorem invoke_submitted_as_execute:
  assumes "tx_type tx \<noteq> DEPLOY" and "signature tx = []"
    and "get_nonce_call env self = Inr nonce_tx"
    and "fst (Client_call_contract env nonce_tx None None) = Inr (n # rest)"
    and "hash_message env (address self) (contract_address tx) (entry_point_selector tx)
           (calldata tx) n = Inr h"
    and "sign env h (AccountClient_private_key self) = Inr (r, s)"
    and "InvokeFunction env (address self) (get_selector_from_name env ''execute'')
           ([contract_address tx, entry_point_selector tx, int (length (calldata tx))]
              @ calldata tx @ [n])
           [r, s] = Inr submitted"
  shows "AccountClient_add_transaction env self tx token =
           (gateway_add_transaction env submitted None,
            [FeederCallContract nonce_tx None None,
             SignMessage h (AccountClient_private_key self),
             GatewayAddTransaction submitted None])
       \<and> submitted =
           \<lparr>tx_type = INVOKE_FUNCTION, contract_address = address self,
            entry_point_selector = get_selector_from_name env ''execute'',
            calldata = [contract_address tx, entry_point_selector tx,
                        int (length (calldata tx))] @ calldata tx @ [n],
            signature = [r, s]\<rparr>"
  using assms(5,6,7) InvokeFunction_fields [OF assms(7)]
  by (simp add: add_transaction_fetched [OF assms(1,2,3,4), of token])

text \<open>
  The example of the spec: contract 200, selector 300, calldata \<open>[1, 2, 3]\<close> and nonce 7
  from an account at address 100 give the calldata \<open>[200, 300, 3, 1, 2, 3, 7]\<close>, addressed
  to 100 and not to 200.
\<close>

theorem invoke_submitted_as_execute_witness:
  "tx_type (example_invoke []) \<noteq> DEPLOY \<and> signature (example_invoke []) = []
   \<and> get_nonce_call (scripted_environment []) (example_client 5) =
       Inr \<lparr>tx_type = INVOKE_FUNCTION, contract_address = 100, entry_point_selector = 9,
            calldata = [], signature = []\<rparr>
   \<and> fst (Client_call_contract (scripted_environment [])
             \<lparr>tx_type = INVOKE_FUNCTION, contract_address = 100, entry_point_selector = 9,
              calldata = [], signature = []\<rparr> None None) = Inr [7]
   \<and> hash_message (scripted_environment []) 100 200 300 [1, 2, 3] 7 = Inr 613
   \<and> sign (scripted_environment []) 613 5 = Inr (618, 3065)
   \<and> InvokeFunction (scripted_environment []) 100 7 [200, 300, 3, 1, 2, 3, 7] [618, 3065] =
       Inr \<lparr>tx_type = INVOKE_FUNCTION, contract_address = 100, entry_point_selector = 7,
            calldata = [200, 300, 3, 1, 2, 3, 7], signature = [618, 3065]\<rparr>
   \<and> snd (AccountClient_add_transaction (scripted_environment []) (example_client 5)
            (example_invoke []) None) =
       [FeederCallContract
          \<lparr>tx_type = INVOKE_FUNCTION, contract_address = 100, entry_point_selector = 9,
           calldata = [], signature = []\<rparr> None None,
        SignMessage 613 5,
        GatewayAddTransaction
          \<lparr>tx_type = INVOKE_FUNCTION, contract_address = 100, entry_point_selector = 7,
           calldata = [200, 300, 3, 1, 2, 3, 7], signature = [618, 3065]\<rparr> None]"
proof -
  let ?env = "scripted_environment []"
  let ?nonce_tx = "\<lparr>tx_type = INVOKE_FUNCTION, contract_address = 100,
    entry_point_selector = 9, calldata = [], signature = []\<rparr>"
  let ?submitted = "\<lparr>tx_type = INVOKE_FUNCTION, contract_address = 100,
    entry_point_selector = 7, calldata = [200, 300, 3, 1, 2, 3, 7],
    signature = [618, 3065]\<rparr>"
  have t: "tx_type (example_invoke []) \<noteq> DEPLOY" and u: "signature (example_invoke []) = []"
    by (simp_all add: example_invoke_def)
  have c: "get_nonce_call ?env (example_client 5) = Inr ?nonce_tx"
    by (simp add: example_defs)
  have f: "fst (Client_call_contract ?env ?nonce_tx None None) = Inr [7]"
    by (simp add: example_defs)
  have h: "hash_message ?env (address (example_client 5)) (contract_address (example_invoke []))
             (entry_point_selector (example_invoke [])) (calldata (example_invoke [])) 7 =
           Inr 613"
    by (simp add: example_defs)
  have g: "sign ?env 613 (AccountClient_private_key (example_client 5)) = Inr (618, 3065)"
    by (simp add: example_defs)
  have v: "InvokeFunction ?env (address (example_client 5))
             (get_selector_from_name ?env ''execute'')
             ([contract_address (example_invoke []), entry_point_selector (example_invoke []),
               int (length (calldata (example_invoke [])))]
                @ calldata (example_invoke []) @ [7])
             [618, 3065] = Inr ?submitted"
    by (simp add: example_defs)
  from invoke_submitted_as_execute [OF t u c f h g v, of None]
  have "snd (AccountClient_add_transaction ?env (example_client 5) (example_invoke []) None) =
      [FeederCallContract ?nonce_tx None None, SignMessage 613 5,
       GatewayAddTransaction ?submitted None]"
    by (simp add: example_defs)
  moreover have "hash_message ?env 100 200 300 [1, 2, 3] 7 = Inr 613"
    "sign ?env 613 5 = Inr (618, 3065)"
    "InvokeFunction ?env 100 7 [200, 300, 3, 1, 2, 3, 7] [618, 3065] = Inr ?submitted"
    by (simp_all add: example_defs)
  ultimately show ?thesis
    using t u c f by simp
qed

text \<open>
  C2. An intent that is not of deploy type and carries a non-empty signature is rejected
  with a \<open>TypeError\<close>, and the run has no event at all: the nonce call, the signer and the
  submission endpoint are not reached.
\<close>

theorem presigned_invoke_rejected:
  assumes "tx_type tx \<noteq> DEPLOY" and "signature tx \<noteq> []"
  shows "AccountClient_add_transaction env self tx token =
           (Inl (TypeError ''Adding signatures to a signer tx currently isn't supported''), [])"
  using assms by (simp add: AccountClient_add_transaction_def)

theorem presigned_invoke_rejected_witness:
  "tx_type (example_invoke [1, 2]) \<noteq> DEPLOY \<and> signature (example_invoke [1, 2]) \<noteq> []
   \<and> AccountClient_add_transaction (scripted_environment []) (example_client 5)
        (example_invoke [1, 2]) None =
      (Inl (TypeError ''Adding signatures to a signer tx currently isn't supported''), [])"
  using presigned_invoke_rejected
    [of "example_invoke [1, 2]" "scripted_environment []" "example_client 5" None]
  by (simp add: example_invoke_def)

text \<open>
  C10. An intent of deploy type goes to the base submission path as it is, with the
  caller's token, whatever its signature field holds: the only event is the submission of
  the same object, and the result is the gateway's answer to it.
\<close>

theorem deploy_forwarded_unmodified:
  assumes "tx_type tx = DEPLOY"
  shows "AccountClient_add_transaction env self tx token = Client_add_transaction env tx token
       \<and> fst (AccountClient_add_transaction env self tx token) =
           gateway_add_transaction env tx token
       \<and> snd (AccountClient_add_transaction env self tx token) =
           [GatewayAddTransaction tx token]"
  using assms by (simp add: AccountClient_add_transaction_def Client_add_transaction_def)

theorem deploy_forwarded_unmodified_witness:
  "tx_type (example_deploy [1, 2]) = DEPLOY \<and> signature (example_deploy [1, 2]) \<noteq> []
   \<and> snd (AccountClient_add_transaction (scripted_environment []) (example_client 5)
        (example_deploy [1, 2]) (Some ''token'')) =
      [GatewayAddTransaction (example_deploy [1, 2]) (Some ''token'')]"
proof -
  have d: "tx_type (example_deploy [1, 2]) = DEPLOY"
    and s: "signature (example_deploy [1, 2]) \<noteq> []"
    by (simp_all add: example_deploy_def)
  from deploy_forwarded_unmodified
    [OF d, of "scripted_environment []" "example_client 5" "Some ''token''"]
  have "snd (AccountClient_add_transaction (scripted_environment []) (example_client 5)
        (example_deploy [1, 2]) (Some ''token'')) =
      [GatewayAddTransaction (example_deploy [1, 2]) (Some ''token'')]"
    by blast
  with d s show ?thesis
    by simp
qed

text \<open>
  C8. In an invoke submission from an account whose address the constructor accepts, the
  first event is a read-only contract call, at no particular block, to the account's own
  address, with the selector derived from the name "get_nonce", empty calldata and empty
  signature. When that call answers the list \<open>n # rest\<close>, the nonce used is \<open>n\<close>: the
  message hash is taken over \<open>n\<close>, it is the only message the run signs, and the calldata
  of any transaction the run submits ends with \<open>n\<close>.
\<close>

theorem nonce_fetched_from_own_account:
  assumes "tx_type tx \<noteq> DEPLOY" and "signature tx = []"
    and "get_nonce_call env self = Inr nonce_tx"
  shows "nonce_tx =
           \<lparr>tx_type = INVOKE_FUNCTION, contract_address = address self,
            entry_point_selector = get_selector_from_name env ''get_nonce'',
            calldata = [], signature = []\<rparr>
       \<and> (\<exists>later. snd (AccountClient_add_transaction env self tx token) =
            FeederCallContract nonce_tx None None # later)
       \<and> (\<forall>n rest. fst (Client_call_contract env nonce_tx None None) = Inr (n # rest) \<longrightarrow>
            (\<forall>h. hash_message env (address self) (contract_address tx)
                    (entry_point_selector tx) (calldata tx) n = Inr h \<longrightarrow>
                 take 2 (snd (AccountClient_add_transaction env self tx token)) =
                   [FeederCallContract nonce_tx None None,
                    SignMessage h (AccountClient_private_key self)])
            \<and> (\<forall>h k. SignMessage h k
                        \<in> set (snd (AccountClient_add_transaction env self tx token)) \<longrightarrow>
                  hash_message env (address self) (contract_address tx)
                    (entry_point_selector tx) (calldata tx) n = Inr h)
            \<and> (\<forall>submitted tok.
                  GatewayAddTransaction submitted tok
                    \<in> set (snd (AccountClient_add_transaction env self tx token)) \<longrightarrow>
                  calldata submitted =
                    [contract_address tx, entry_point_selector tx, int (length (calldata tx))]
                      @ calldata tx @ [n]))"
proof (intro conjI allI impI)
  show "nonce_tx =
      \<lparr>tx_type = INVOKE_FUNCTION, contract_address = address self,
       entry_point_selector = get_selector_from_name env ''get_nonce'',
       calldata = [], signature = []\<rparr>"
    using assms(3) by (simp add: get_nonce_call_def InvokeFunction_fields)
next
  show "\<exists>later. snd (AccountClient_add_transaction env self tx token) =
      FeederCallContract nonce_tx None None # later"
    using assms
    by (simp add: AccountClient_add_transaction_def Client_call_contract_def
        Client_add_transaction_def get_nonce_call_def Let_def
        split: sum.splits prod.splits list.splits)
next
  fix n rest h
  assume "fst (Client_call_contract env nonce_tx None None) = Inr (n # rest)"
    and "hash_message env (address self) (contract_address tx)
           (entry_point_selector tx) (calldata tx) n = Inr h"
  then show "take 2 (snd (AccountClient_add_transaction env self tx token)) =
      [FeederCallContract nonce_tx None None, SignMessage h (AccountClient_private_key self)]"
    by (simp add: add_transaction_fetched [OF assms, of n rest token]
        split: sum.splits prod.splits)
next
  fix n rest h k
  assume "fst (Client_call_contract env nonce_tx None None) = Inr (n # rest)"
    and "SignMessage h k \<in> set (snd (AccountClient_add_transaction env self tx token))"
  then show "hash_message env (address self) (contract_address tx)
      (entry_point_selector tx) (calldata tx) n = Inr h"
    by (auto simp: add_transaction_fetched [OF assms, of n rest token]
        split: sum.splits prod.splits)
next
  fix n rest submitted tok
  assume "fst (Client_call_contract env nonce_tx None None) = Inr (n # rest)"
    and "GatewayAddTransaction submitted tok
           \<in> set (snd (AccountClient_add_transaction env self tx token))"
  then show "calldata submitted =
      [contract_address tx, entry_point_selector tx, int (length (calldata tx))]
        @ calldata tx @ [n]"
    by (auto simp: add_transaction_fetched [OF assms, of n rest token]
        dest: InvokeFunction_fields split: sum.splits prod.splits)
qed

theorem nonce_fetched_from_own_account_witness:
  "tx_type (example_invoke []) \<noteq> DEPLOY \<and> signature (example_invoke []) = []
   \<and> get_nonce_call (scripted_environment []) (example_client 5) =
       Inr \<lparr>tx_type = INVOKE_FUNCTION, contract_address = 100, entry_point_selector = 9,
            calldata = [], signature = []\<rparr>
   \<and> fst (Client_call_contract (scripted_environment [])
             \<lparr>tx_type = INVOKE_FUNCTION, contract_address = 100, entry_point_selector = 9,
              calldata = [], signature = []\<rparr> None None) = Inr [7]
   \<and> hash_message (scripted_environment []) 100 200 300 [1, 2, 3] 7 = Inr 613
   \<and> take 2 (snd (AccountClient_add_transaction (scripted_environment []) (example_client 5)
                 (example_invoke []) None)) =
       [FeederCallContract
          \<lparr>tx_type = INVOKE_FUNCTION, contract_address = 100, entry_point_selector = 9,
           calldata = [], signature = []\<rparr> None None,
        SignMessage 613 5]
   \<and> GatewayAddTransaction
         \<lparr>tx_type = INVOKE_FUNCTION, contract_address = 100, entry_point_selector = 7,
          calldata = [200, 300, 3, 1, 2, 3, 7], signature = [618, 3065]\<rparr> None
       \<in> set (snd (AccountClient_add_transaction (scripted_environment []) (example_client 5)
                      (example_invoke []) None))"
proof -
  let ?env = "scripted_environment []"
  let ?nonce_tx = "\<lparr>tx_type = INVOKE_FUNCTION, contract_address = 100,
    entry_point_selector = 9, calldata = [], signature = []\<rparr>"
  have t: "tx_type (example_invoke []) \<noteq> DEPLOY" and u: "signature (example_invoke []) = []"
    by (simp_all add: example_invoke_def)
  have c: "get_nonce_call ?env (example_client 5) = Inr ?nonce_tx"
    by (simp add: example_defs)
  have f: "fst (Client_call_contract ?env ?nonce_tx None None) = Inr [7]"
    by (simp add: example_defs)
  have h: "hash_message ?env (address (example_client 5)) (contract_address (example_invoke []))
             (entry_point_selector (example_invoke [])) (calldata (example_invoke [])) 7 =
           Inr 613"
    and h': "hash_message ?env 100 200 300 [1, 2, 3] 7 = Inr 613"
    by (simp_all add: example_defs)
  have g: "GatewayAddTransaction
         \<lparr>tx_type = INVOKE_FUNCTION, contract_address = 100, entry_point_selector = 7,
          calldata = [200, 300, 3, 1, 2, 3, 7], signature = [618, 3065]\<rparr> None
       \<in> set (snd (AccountClient_add_transaction ?env (example_client 5)
                      (example_invoke []) None))"
    by (simp add: example_defs AccountClient_add_transaction_def Client_add_transaction_def)
  from nonce_fetched_from_own_account [OF t u c, of None] f h
  have "take 2 (snd (AccountClient_add_transaction ?env (example_client 5)
                 (example_invoke []) None)) =
       [FeederCallContract ?nonce_tx None None,
        SignMessage 613 (AccountClient_private_key (example_client 5))]"
    by blast
  then have "take 2 (snd (AccountClient_add_transaction ?env (example_client 5)
                 (example_invoke []) None)) =
       [FeederCallContract ?nonce_tx None None, SignMessage 613 5]"
    by (simp add: AccountClient_private_key_def example_client_def)
  with t u c f h' g show ?thesis
    by blast
qed

text \<open>
  C4, as the code has it. The submission of an invoke does not check the private key: the
  key is read by the signing step only, and the signing step comes after the nonce call.
  When the signer raises on the key, the caller gets the signer's exception after the
  nonce call has been made, and nothing is submitted. When the signer signs, whatever the
  key is, the signed transaction is submitted.
\<close>

theorem signing_failure_after_nonce_fetch:
  assumes "tx_type tx \<noteq> DEPLOY" and "signature tx = []"
    and "get_nonce_call env self = Inr nonce_tx"
    and "fst (Client_call_contract env nonce_tx None None) = Inr (n # rest)"
    and "hash_message env (address self) (contract_address tx) (entry_point_selector tx)
           (calldata tx) n = Inr h"
  shows "(\<forall>e. sign env h (AccountClient_private_key self) = Inl e \<longrightarrow>
            AccountClient_add_transaction env self tx token =
              (Inl e,
               [FeederCallContract nonce_tx None None,
                SignMessage h (AccountClient_private_key self)]))
       \<and> (\<forall>r s submitted.
            sign env h (AccountClient_private_key self) = Inr (r, s)
            \<and> InvokeFunction env (address self) (get_selector_from_name env ''execute'')
                ([contract_address tx, entry_point_selector tx, int (length (calldata tx))]
                   @ calldata tx @ [n])
                [r, s] = Inr submitted \<longrightarrow>
            snd (AccountClient_add_transaction env self tx token) =
              [FeederCallContract nonce_tx None None,
               SignMessage h (AccountClient_private_key self),
               GatewayAddTransaction submitted None])"
  using assms(5) by (simp add: add_transaction_fetched [OF assms(1,2,3,4), of token])

text \<open>
  The key \<open>- 1\<close>, on which the signer raises: the run ends after the nonce call and the
  signing step. The key 0, with which the signer signs: the transaction is submitted.
\<close>

theorem signing_failure_after_nonce_fetch_witness:
  "tx_type (example_invoke []) \<noteq> DEPLOY \<and> signature (example_invoke []) = []
   \<and> get_nonce_call (scripted_environment []) (example_client (- 1)) =
       Inr \<lparr>tx_type = INVOKE_FUNCTION, contract_address = 100, entry_point_selector = 9,
            calldata = [], signature = []\<rparr>
   \<and> fst (Client_call_contract (scripted_environment [])
             \<lparr>tx_type = INVOKE_FUNCTION, contract_address = 100, entry_point_selector = 9,
              calldata = [], signature = []\<rparr> None None) = Inr [7]
   \<and> hash_message (scripted_environment []) 100 200 300 [1, 2, 3] 7 = Inr 613
   \<and> sign (scripted_environment []) 613 (- 1) = Inl (Raised ''invalid private key'')
   \<and> fst (AccountClient_add_transaction (scripted_environment []) (example_client (- 1))
            (example_invoke []) None) = Inl (Raised ''invalid private key'')
   \<and> length (snd (AccountClient_add_transaction (scripted_environment [])
                     (example_client (- 1)) (example_invoke []) None)) = 2
   \<and> sign (scripted_environment []) 613 0 = Inr (613, 0)
   \<and> length (snd (AccountClient_add_transaction (scripted_environment [])
                     (example_client 0) (example_invoke []) None)) = 3"
proof -
  let ?env = "scripted_environment []"
  let ?nonce_tx = "\<lparr>tx_type = INVOKE_FUNCTION, contract_address = 100,
    entry_point_selector = 9, calldata = [], signature = []\<rparr>"
  let ?submitted = "\<lparr>tx_type = INVOKE_FUNCTION, contract_address = 100,
    entry_point_selector = 7, calldata = [200, 300, 3, 1, 2, 3, 7],
    signature = [613, 0]\<rparr>"
  have t: "tx_type (example_invoke []) \<noteq> DEPLOY" and u: "signature (example_invoke []) = []"
    by (simp_all add: example_invoke_def)
  have c: "get_nonce_call ?env (example_client key) = Inr ?nonce_tx" for key
    by (simp add: example_defs)
  have f: "fst (Client_call_contract ?env ?nonce_tx None None) = Inr [7]"
    by (simp add: example_defs)
  have h: "hash_message ?env (address (example_client key))
             (contract_address (example_invoke [])) (entry_point_selector (example_invoke []))
             (calldata (example_invoke [])) 7 = Inr 613" for key
    by (simp add: example_defs)
  have h': "hash_message ?env 100 200 300 [1, 2, 3] 7 = Inr 613"
    by (simp add: example_defs)
  have bad: "sign ?env 613 (AccountClient_private_key (example_client (- 1))) =
               Inl (Raised ''invalid private key'')"
    and bad': "sign ?env 613 (- 1) = Inl (Raised ''invalid private key'')"
    and good: "sign ?env 613 (AccountClient_private_key (example_client 0)) = Inr (613, 0)"
    and good': "sign ?env 613 0 = Inr (613, 0)"
    by (simp_all add: example_defs)
  have v: "InvokeFunction ?env (address (example_client 0))
             (get_selector_from_name ?env ''execute'')
             ([contract_address (example_invoke []), entry_point_selector (example_invoke []),
               int (length (calldata (example_invoke [])))]
                @ calldata (example_invoke []) @ [7])
             [613, 0] = Inr ?submitted"
    by (simp add: example_defs)
  from signing_failure_after_nonce_fetch [OF t u c f h, of "- 1" None] bad
  have "AccountClient_add_transaction ?env (example_client (- 1)) (example_invoke []) None =
      (Inl (Raised ''invalid private key''),
       [FeederCallContract ?nonce_tx None None,
        SignMessage 613 (AccountClient_private_key (example_client (- 1)))])"
    by blast
  then have failed:
    "fst (AccountClient_add_transaction ?env (example_client (- 1)) (example_invoke []) None) =
       Inl (Raised ''invalid private key'')"
    "length (snd (AccountClient_add_transaction ?env (example_client (- 1))
                    (example_invoke []) None)) = 2"
    by simp_all
  from signing_failure_after_nonce_fetch [OF t u c f h, of 0 None] good v
  have "snd (AccountClient_add_transaction ?env (example_client 0) (example_invoke []) None) =
      [FeederCallContract ?nonce_tx None None,
       SignMessage 613 (AccountClient_private_key (example_client 0)),
       GatewayAddTransaction ?submitted None]"
    by blast
  then have submitted:
    "length (snd (AccountClient_add_transaction ?env (example_client 0)
                    (example_invoke []) None)) = 3"
    by simp
  from t u c [of "- 1"] f h' bad' failed good' submitted show ?thesis
    by blast
qed

text \<open>
  C4 as stated fails. With the private key \<open>- 1\<close>, on which the signer raises, the
  submission of an invoke fails only after the feeder gateway has been called for the
  nonce. With the private key 0, with which the signer signs, it does not fail at all:
  the transaction is signed and submitted.
\<close>

theorem private_key_not_checked_before_network_call:
  "AccountClient_private_key (example_client (- 1)) = - 1
   \<and> AccountClient_add_transaction (scripted_environment []) (example_client (- 1))
        (example_invoke []) None =
       (Inl (Raised ''invalid private key''),
        [FeederCallContract
           \<lparr>tx_type = INVOKE_FUNCTION, contract_address = 100, entry_point_selector = 9,
            calldata = [], signature = []\<rparr> None None,
         SignMessage 613 (- 1)])
   \<and> is_network_call
        (hd (snd (AccountClient_add_transaction (scripted_environment [])
                    (example_client (- 1)) (example_invoke []) None)))
   \<and> AccountClient_private_key (example_client 0) = 0
   \<and> snd (AccountClient_add_transaction (scripted_environment []) (example_client 0)
            (example_invoke []) None) =
       [FeederCallContract
          \<lparr>tx_type = INVOKE_FUNCTION, contract_address = 100, entry_point_selector = 9,
           calldata = [], signature = []\<rparr> None None,
        SignMessage 613 0,
        GatewayAddTransaction
          \<lparr>tx_type = INVOKE_FUNCTION, contract_address = 100, entry_point_selector = 7,
           calldata = [200, 300, 3, 1, 2, 3, 7], signature = [613, 0]\<rparr> None]"
  by (simp add: example_defs AccountClient_add_transaction_def Client_add_transaction_def)

text \<open>
  The values that the constructor of the example refuses: an account at address \<open>- 1\<close> or
  \<open>2 ^ 251\<close> submits nothing and calls nothing, and a nonce beyond the field is refused
  after the signing step, before anything is submitted.
\<close>

lemma refused_values_example:
  "AccountClient_add_transaction (scripted_environment [])
     \<lparr>address = - 1, key_pair = \<lparr>private_key = 5, public_key = 10\<rparr>\<rparr> (example_invoke []) None =
     (Inl (Raised ''contract address out of range''), [])
   \<and> AccountClient_add_transaction (scripted_environment [])
     \<lparr>address = 2 ^ 251, key_pair = \<lparr>private_key = 5, public_key = 10\<rparr>\<rparr> (example_invoke []) None =
     (Inl (Raised ''contract address out of range''), [])
   \<and> AccountClient_add_transaction
       ((scripted_environment []) \<lparr>int_base16 := (\<lambda>v. Inr (2 ^ 256 - 1))\<rparr>)
       (example_client 5) (example_invoke []) None =
     (Inl (Raised ''field element out of range''),
      [FeederCallContract
         \<lparr>tx_type = INVOKE_FUNCTION, contract_address = 100, entry_point_selector = 9,
          calldata = [], signature = []\<rparr> None None,
       SignMessage (100 + 200 + 300 + 6 + (2 ^ 256 - 1)) 5])"
  by (simp add: example_defs AccountClient_add_transaction_def)

section \<open>Waiting for a transaction\<close>

text \<open>
  C7. A check interval that is zero or negative is rejected with a \<open>ValueError\<close>, whatever
  the other arguments are, and the run has no event: the feeder gateway is not called.
\<close>

theorem nonpositive_check_interval_rejected:
  assumes "check_interval \<le> 0"
  shows "wait_for_tx env tx_hash wait_for_accept check_interval =
           Some (Inl (ValueError ''check_interval has to bigger than 0.''), [])"
  using assms by (simp add: wait_for_tx_def)

theorem nonpositive_check_interval_rejected_witness:
  "(0::int) \<le> 0 \<and> (- 1::int) \<le> 0
   \<and> wait_for_tx pending_with_block (Some (HashInt 1)) False 0 =
       Some (Inl (ValueError ''check_interval has to bigger than 0.''), [])
   \<and> wait_for_tx pending_with_block (Some (HashInt 1)) True (- 1) =
       Some (Inl (ValueError ''check_interval has to bigger than 0.''), [])"
  using nonpositive_check_interval_rejected [of 0 pending_with_block "Some (HashInt 1)" False]
    nonpositive_check_interval_rejected [of "- 1" pending_with_block "Some (HashInt 1)" True]
  by simp


lemma loop_Raise:
  "wait_for_tx_iteration env tx_hash wfa fr i = Raise e \<Longrightarrow>
   wait_for_tx_loop env tx_hash wfa ci fr i tr =
     Some (Inl e, tr @ [FeederGetTransaction tx_hash None])"
  by (subst wait_for_tx_loop.simps) simp

lemma loop_Continue:
  "wait_for_tx_iteration env tx_hash wfa fr i = Continue \<Longrightarrow>
   wait_for_tx_loop env tx_hash wfa ci fr i tr =
     wait_for_tx_loop env tx_hash wfa ci False (Suc i)
       (tr @ [FeederGetTransaction tx_hash None, Sleep ci])"
  by (subst wait_for_tx_loop.simps) simp

text \<open>
  After \<open>n\<close> passes that fell through, the loop is at poll \<open>n\<close>, and \<open>first_run\<close> holds
  exactly when \<open>n = 0\<close>.
\<close>

lemma loop_unroll:
  "(\<And>j. j < n \<Longrightarrow> wait_for_tx_iteration env tx_hash wfa (j = 0) j = Continue) \<Longrightarrow>
   wait_for_tx_loop env tx_hash wfa ci True 0 [] =
     wait_for_tx_loop env tx_hash wfa ci (n = 0) n (polls_before tx_hash ci n)"
proof (induction n)
  case 0
  show ?case by simp
next
  case (Suc n)
  have "wait_for_tx_loop env tx_hash wfa ci True 0 [] =
          wait_for_tx_loop env tx_hash wfa ci (n = 0) n (polls_before tx_hash ci n)"
    using Suc by simp
  also have "\<dots> = wait_for_tx_loop env tx_hash wfa ci False (Suc n)
                     (polls_before tx_hash ci n @ [FeederGetTransaction tx_hash None, Sleep ci])"
    using Suc.prems [of n] by (simp add: loop_Continue)
  finally show ?case by simp
qed

lemma iteration_status:
  "polled_status env tx_hash i = Some status \<Longrightarrow>
   \<exists>result. Client_get_transaction env tx_hash None i = Inr result \<and>
     wait_for_tx_iteration env tx_hash wfa fr i =
      (if status = ACCEPTED_ONCHAIN then
         (case getitem result ''block_number'' of
            Inl e \<Rightarrow> Raise e
          | Inr bn \<Rightarrow> Return (bn, status))
       else if status = PENDING then
         (if \<not> wfa \<and> ''block_number'' \<in> dom result then
            (case getitem result ''block_number'' of
               Inl e \<Rightarrow> Raise e
             | Inr bn \<Rightarrow> Return (bn, status))
          else Continue)
       else if status = REJECTED then Raise (TransactionRejected tx_hash)
       else if status = NOT_RECEIVED then
         (if \<not> fr then Raise (TransactionNotReceived tx_hash) else Continue)
       else if status \<noteq> RECEIVED then Raise (UnknownStatus status)
       else Continue)"
proof -
  assume "polled_status env tx_hash i = Some status"
  then obtain result name where
    "Client_get_transaction env tx_hash None i = Inr result"
    "getitem result ''status'' = Inr name"
    "TxStatus_getitem env name = Inr status"
    by (auto simp: polled_status_def split: sum.splits)
  then show ?thesis
    by (simp add: wait_for_tx_iteration_def)
qed

lemma iteration_NOT_RECEIVED:
  "polled_status env tx_hash i = Some NOT_RECEIVED \<Longrightarrow>
   wait_for_tx_iteration env tx_hash wfa fr i =
     (if fr then Continue else Raise (TransactionNotReceived tx_hash))"
  using iteration_status [of env tx_hash i NOT_RECEIVED wfa fr] by auto

text \<open>
  C5. With a positive check interval: a first poll that observes \<open>NOT_RECEIVED\<close> is
  tolerated, the loop sleeps and polls again. Any later poll \<open>n\<close> that the loop reaches
  (every pass before it fell through to the sleep) and that observes \<open>NOT_RECEIVED\<close> ends
  the wait with the failure "not received", at that poll. In particular two polls that
  both observe \<open>NOT_RECEIVED\<close> fail on the second poll.
\<close>

theorem not_received_tolerated_once:
  assumes "0 < check_interval"
  shows "(polled_status env tx_hash 0 = Some NOT_RECEIVED \<longrightarrow>
            wait_for_tx env tx_hash wait_for_accept check_interval =
              wait_for_tx_loop env tx_hash wait_for_accept check_interval False 1
                [FeederGetTransaction tx_hash None, Sleep check_interval])
       \<and> (0 < n \<and> (\<forall>j<n. wait_for_tx_iteration env tx_hash wait_for_accept (j = 0) j = Continue)
            \<and> polled_status env tx_hash n = Some NOT_RECEIVED \<longrightarrow>
            wait_for_tx env tx_hash wait_for_accept check_interval =
              Some (Inl (TransactionNotReceived tx_hash),
                    polls_before tx_hash check_interval n @ [FeederGetTransaction tx_hash None]))
       \<and> (polled_status env tx_hash 0 = Some NOT_RECEIVED
            \<and> polled_status env tx_hash 1 = Some NOT_RECEIVED \<longrightarrow>
            wait_for_tx env tx_hash wait_for_accept check_interval =
              Some (Inl (TransactionNotReceived tx_hash),
                    [FeederGetTransaction tx_hash None, Sleep check_interval,
                     FeederGetTransaction tx_hash None]))"
proof (intro conjI impI)
  assume "polled_status env tx_hash 0 = Some NOT_RECEIVED"
  then have "wait_for_tx_iteration env tx_hash wait_for_accept True 0 = Continue"
    by (simp add: iteration_NOT_RECEIVED)
  then show "wait_for_tx env tx_hash wait_for_accept check_interval =
      wait_for_tx_loop env tx_hash wait_for_accept check_interval False 1
        [FeederGetTransaction tx_hash None, Sleep check_interval]"
    using assms loop_Continue [of env tx_hash wait_for_accept True 0 check_interval "[]"]
    by (simp add: wait_for_tx_def)
next
  assume a: "0 < n \<and> (\<forall>j<n. wait_for_tx_iteration env tx_hash wait_for_accept (j = 0) j = Continue)
            \<and> polled_status env tx_hash n = Some NOT_RECEIVED"
  then have "wait_for_tx_loop env tx_hash wait_for_accept check_interval True 0 [] =
     wait_for_tx_loop env tx_hash wait_for_accept check_interval (n = 0) n
       (polls_before tx_hash check_interval n)"
    by (intro loop_unroll) simp
  moreover have "wait_for_tx_iteration env tx_hash wait_for_accept (n = 0) n =
     Raise (TransactionNotReceived tx_hash)"
    using a by (simp add: iteration_NOT_RECEIVED)
  ultimately show "wait_for_tx env tx_hash wait_for_accept check_interval =
      Some (Inl (TransactionNotReceived tx_hash),
            polls_before tx_hash check_interval n @ [FeederGetTransaction tx_hash None])"
    using assms by (simp add: wait_for_tx_def loop_Raise)
next
  assume a: "polled_status env tx_hash 0 = Some NOT_RECEIVED
            \<and> polled_status env tx_hash 1 = Some NOT_RECEIVED"
  then have "wait_for_tx_iteration env tx_hash wait_for_accept True 0 = Continue"
    and "wait_for_tx_iteration env tx_hash wait_for_accept False (Suc 0) =
           Raise (TransactionNotReceived tx_hash)"
    by (simp_all add: iteration_NOT_RECEIVED)
  then show "wait_for_tx env tx_hash wait_for_accept check_interval =
      Some (Inl (TransactionNotReceived tx_hash),
            [FeederGetTransaction tx_hash None, Sleep check_interval,
             FeederGetTransaction tx_hash None])"
    using assms by (simp add: wait_for_tx_def loop_Continue loop_Raise)
qed

text \<open>
  Two scripts: \<open>NOT_RECEIVED\<close> twice fails on the second poll; \<open>NOT_RECEIVED\<close>,
  \<open>RECEIVED\<close>, \<open>NOT_RECEIVED\<close> fails on the third.
\<close>

theorem not_received_tolerated_once_witness:
  "(0::int) < 5
   \<and> polled_status not_received_twice None 0 = Some NOT_RECEIVED
   \<and> polled_status not_received_twice None 1 = Some NOT_RECEIVED
   \<and> wait_for_tx not_received_twice None False 5 =
       Some (Inl (TransactionNotReceived None),
             [FeederGetTransaction None None, Sleep 5, FeederGetTransaction None None])
   \<and> (0::nat) < 2
   \<and> wait_for_tx_iteration not_received_after_received None False True 0 = Continue
   \<and> wait_for_tx_iteration not_received_after_received None False False 1 = Continue
   \<and> polled_status not_received_after_received None 2 = Some NOT_RECEIVED
   \<and> wait_for_tx not_received_after_received None False 5 =
       Some (Inl (TransactionNotReceived None),
             [FeederGetTransaction None None, Sleep 5, FeederGetTransaction None None, Sleep 5,
              FeederGetTransaction None None])"
proof -
  have ci: "(0::int) < 5"
    by simp
  have p0: "polled_status not_received_twice None 0 = Some NOT_RECEIVED"
    and p1: "polled_status not_received_twice None 1 = Some NOT_RECEIVED"
    by (simp_all add: not_received_twice_def poll_defs example_defs)
  have twice: "wait_for_tx not_received_twice None False 5 =
       Some (Inl (TransactionNotReceived None),
             [FeederGetTransaction None None, Sleep 5, FeederGetTransaction None None])"
    using not_received_tolerated_once [OF ci, of not_received_twice None False 1] p0 p1
    by blast
  have c0: "wait_for_tx_iteration not_received_after_received None False True 0 = Continue"
    and c1: "wait_for_tx_iteration not_received_after_received None False False 1 = Continue"
    by (simp_all add: not_received_after_received_def poll_defs example_defs)
  have c: "\<forall>j<2. wait_for_tx_iteration not_received_after_received None False (j = 0) j =
             Continue"
  proof (intro allI impI)
    fix j :: nat
    assume "j < 2"
    then have "j = 0 \<or> j = 1"
      by auto
    with c0 c1
    show "wait_for_tx_iteration not_received_after_received None False (j = 0) j = Continue"
      by auto
  qed
  have p2: "polled_status not_received_after_received None 2 = Some NOT_RECEIVED"
    by (simp add: not_received_after_received_def poll_defs example_defs)
  have n2: "(0::nat) < 2"
    by simp
  have "wait_for_tx not_received_after_received None False 5 =
       Some (Inl (TransactionNotReceived None),
             polls_before None 5 2 @ [FeederGetTransaction None None])"
    using not_received_tolerated_once [OF ci, of not_received_after_received None False 2]
      n2 c p2
    by blast
  then have later: "wait_for_tx not_received_after_received None False 5 =
       Some (Inl (TransactionNotReceived None),
             [FeederGetTransaction None None, Sleep 5, FeederGetTransaction None None, Sleep 5,
              FeederGetTransaction None None])"
    by (simp add: numeral_2_eq_2)
  from ci p0 p1 twice n2 c0 c1 p2 later show ?thesis
    by blast
qed




end
